theory Spec2Isabelle
  imports Complex_Main
begin

section \<open>Cookie Clicker simulator: the game state\<close>

text \<open>
  The embedding follows \<^verbatim>\<open>cookie_clicker.py\<close>. Python floats are idealised as
  \<^typ>\<open>real\<close>, the number type the specification speaks of; rounding, infinities and
  NaN are outside the model. Exceptions are values of \<open>error + 'a\<close>, with \<open>Inl\<close> the
  exception raised.
\<close>

datatype error = ZeroDivisionError | UnknownItemError

type_synonym event = "real \<times> string option \<times> real \<times> real"

record ClickerState =
  total_cookies :: real
  current_cookies :: real
  current_time :: real
  cps :: real
  history :: "event list"

text \<open>The constructor \<^verbatim>\<open>ClickerState.__init__\<close>.\<close>

definition init_ClickerState :: ClickerState where
  "init_ClickerState =
     \<lparr>total_cookies = 0, current_cookies = 0, current_time = 0, cps = 1,
      history = [(0, None, 0, 0)]\<rparr>"

definition get_cookies :: "ClickerState \<Rightarrow> real" where
  "get_cookies s = current_cookies s"

definition get_cps :: "ClickerState \<Rightarrow> real" where
  "get_cps s = cps s"

definition get_time :: "ClickerState \<Rightarrow> real" where
  "get_time s = current_time s"

definition get_history :: "ClickerState \<Rightarrow> event list" where
  "get_history s = history s"

text \<open>
  \<^verbatim>\<open>time_until\<close>: the float division raises \<^verbatim>\<open>ZeroDivisionError\<close> when the rate
  is zero; it is reached only when the target exceeds the balance. There is no check of
  the sign of the rate.
\<close>

definition time_until :: "ClickerState \<Rightarrow> real \<Rightarrow> error + real" where
  "time_until s cookies =
     (if cookies \<le> get_cookies s then Inr 0
      else if get_cps s = 0 then Inl ZeroDivisionError
      else Inr (of_int \<lceil>(cookies - get_cookies s) / get_cps s\<rceil>))"

definition wait :: "ClickerState \<Rightarrow> real \<Rightarrow> ClickerState" where
  "wait s time =
     (if time \<le> 0 then s
      else s\<lparr>current_time := current_time s + time,
             current_cookies := current_cookies s + get_cps s * time,
             total_cookies := total_cookies s + get_cps s * time\<rparr>)"

definition buy_item :: "ClickerState \<Rightarrow> string \<Rightarrow> real \<Rightarrow> real \<Rightarrow> ClickerState" where
  "buy_item s item_name cost additional_cps =
     (if cost > get_cookies s then s
      else s\<lparr>current_cookies := current_cookies s - cost,
             cps := cps s + additional_cps,
             history := history s @ [(get_time s, Some item_name, cost, total_cookies s)]\<rparr>)"

section \<open>The catalog of items\<close>

text \<open>
  Modelled from the spec: the class \<^verbatim>\<open>BuildInfo\<close> of the imported module
  \<^verbatim>\<open>poc_clicker_provided\<close>, which is not part of the sources. The specification's
  catalog maps each item identifier to its current cost and rate contribution, with a
  growth rule fixed per item (multiplicative factor or additive increment); a lookup of
  an identifier that is not in the catalog fails with \<open>UnknownItemError\<close>;
  \<open>apply_purchase\<close> grows the stored cost and leaves the rate contribution alone;
  \<open>duplicate\<close> gives an independent catalog with the same values. The operations keep
  the names under which the source calls them. Identifiers are meant to be distinct;
  the entries are kept in a list so that \<open>build_items\<close> has a fixed order.
\<close>

datatype growth_rule = Multiplicative real | Additive real

record item_info =
  item_cost :: real
  item_cps :: real
  item_growth :: growth_rule

type_synonym BuildInfo = "(string \<times> item_info) list"

fun grow :: "growth_rule \<Rightarrow> real \<Rightarrow> real" where
  "grow (Multiplicative g) c = c * g"
| "grow (Additive d) c = c + d"

definition build_items :: "BuildInfo \<Rightarrow> string list" where
  "build_items b = map fst b"

definition get_cost :: "BuildInfo \<Rightarrow> string \<Rightarrow> error + real" where
  "get_cost b item =
     (case map_of b item of None \<Rightarrow> Inl UnknownItemError | Some i \<Rightarrow> Inr (item_cost i))"

definition get_item_cps :: "BuildInfo \<Rightarrow> string \<Rightarrow> error + real" where
  "get_item_cps b item =
     (case map_of b item of None \<Rightarrow> Inl UnknownItemError | Some i \<Rightarrow> Inr (item_cps i))"

definition update_entry :: "string \<Rightarrow> string \<times> item_info \<Rightarrow> string \<times> item_info" where
  "update_entry item e =
     (if fst e = item
      then (fst e, (snd e)\<lparr>item_cost := grow (item_growth (snd e)) (item_cost (snd e))\<rparr>)
      else e)"

definition update_item :: "BuildInfo \<Rightarrow> string \<Rightarrow> error + BuildInfo" where
  "update_item b item =
     (case map_of b item of None \<Rightarrow> Inl UnknownItemError
      | Some i \<Rightarrow> Inr (map (update_entry item) b))"

definition clone :: "BuildInfo \<Rightarrow> BuildInfo" where
  "clone b = b"

section \<open>Strategies\<close>

text \<open>
  A strategy is called with the balance, the rate, a copy of the history, the time left
  and the working catalog; it answers an item or \<^verbatim>\<open>None\<close>, or raises.
\<close>

type_synonym strategy =
  "real \<Rightarrow> real \<Rightarrow> event list \<Rightarrow> real \<Rightarrow> BuildInfo \<Rightarrow> error + string option"

definition strategy_cursor_broken :: strategy where
  "strategy_cursor_broken cookies rate hist time_left build_info = Inr (Some ''Cursor'')"

definition strategy_none :: strategy where
  "strategy_none cookies rate hist time_left build_info = Inr None"

text \<open>
  The loop of \<^verbatim>\<open>strategy_cheap\<close> that collects the pairs (cost, item) of the
  items whose cost is at most \<open>potential_cookies\<close>.
\<close>

fun available_items :: "BuildInfo \<Rightarrow> real \<Rightarrow> string list \<Rightarrow> (real \<times> string) list
    \<Rightarrow> error + (real \<times> string) list" where
  "available_items b potential_cookies [] acc = Inr acc"
| "available_items b potential_cookies (item # items) acc =
     (case get_cost b item of
        Inl e \<Rightarrow> Inl e
      | Inr c \<Rightarrow>
          if c \<le> potential_cookies
          then available_items b potential_cookies items (acc @ [(c, item)])
          else available_items b potential_cookies items acc)"

text \<open>
  \<^verbatim>\<open>strategy_cheap\<close>: \<open>potential_cookies\<close> is \<^verbatim>\<open>time_left / cps\<close>, as the source
  computes it. Python's \<^verbatim>\<open>sorted\<close> is stable, as \<^const>\<open>sort_key\<close> is.
\<close>

definition strategy_cheap :: strategy where
  "strategy_cheap cookies rate hist time_left build_info =
     (if rate = 0 then Inl ZeroDivisionError
      else
        (case available_items build_info (time_left / rate) (build_items build_info) [] of
           Inl e \<Rightarrow> Inl e
         | Inr avail \<Rightarrow>
             if length avail = 0 then Inr None
             else Inr (Some (snd (hd (sort_key fst avail))))))"

section \<open>The simulation driver\<close>

text \<open>
  The first loop of \<^verbatim>\<open>simulate_clicker\<close>. It may run forever, so its result is an
  option: \<open>None\<close> is a run that never leaves the loop. On exit it hands over the state
  and the working catalog. The source reads the cost of the chosen item a second time
  when it buys; the catalog has not changed in between, so the model uses the value it
  has. \<open>get_item_cps\<close> is the method \<^verbatim>\<open>get_cps\<close> of the catalog, renamed apart from
  the one of the state.
\<close>

partial_function (option) purchase_loop ::
  "BuildInfo \<Rightarrow> real \<Rightarrow> strategy \<Rightarrow> ClickerState \<Rightarrow> (error + ClickerState \<times> BuildInfo) option"
where
  "purchase_loop b duration strat cso =
     (if get_time cso > duration then Some (Inr (cso, b))
      else
        (case strat (get_cookies cso) (get_cps cso) (get_history cso)
                (duration - get_time cso) b of
           Inl e \<Rightarrow> Some (Inl e)
         | Inr None \<Rightarrow> Some (Inr (cso, b))
         | Inr (Some next_purchase) \<Rightarrow>
             (case get_cost b next_purchase of
                Inl e \<Rightarrow> Some (Inl e)
              | Inr cost \<Rightarrow>
                  (case time_until cso cost of
                     Inl e \<Rightarrow> Some (Inl e)
                   | Inr wait_time \<Rightarrow>
                       if get_time cso + wait_time > duration then Some (Inr (cso, b))
                       else
                         (case get_item_cps b next_purchase of
                            Inl e \<Rightarrow> Some (Inl e)
                          | Inr add \<Rightarrow>
                              (case update_item b next_purchase of
                                 Inl e \<Rightarrow> Some (Inl e)
                               | Inr b' \<Rightarrow>
                                   purchase_loop b' duration strat
                                     (buy_item
                                        (if wait_time = 0 then cso else wait cso wait_time)
                                        next_purchase cost add)))))))"

text \<open>
  The second loop, at the final time: it buys while the strategy names an item the
  balance covers. The source does not call \<^verbatim>\<open>update_item\<close> here, so the catalog
  stays as the first loop left it.
\<close>

partial_function (option) sweep_loop ::
  "BuildInfo \<Rightarrow> real \<Rightarrow> strategy \<Rightarrow> ClickerState \<Rightarrow> (error + ClickerState) option"
where
  "sweep_loop b duration strat cso =
     (case strat (get_cookies cso) (get_cps cso) (get_history cso)
             (duration - get_time cso) b of
        Inl e \<Rightarrow> Some (Inl e)
      | Inr None \<Rightarrow> Some (Inr cso)
      | Inr (Some next_purchase) \<Rightarrow>
          (case get_cost b next_purchase of
             Inl e \<Rightarrow> Some (Inl e)
           | Inr cost \<Rightarrow>
               if get_cookies cso \<ge> cost
               then
                 (case get_item_cps b next_purchase of
                    Inl e \<Rightarrow> Some (Inl e)
                  | Inr add \<Rightarrow>
                      sweep_loop b duration strat (buy_item cso next_purchase cost add))
               else Some (Inr cso)))"

definition simulate_clicker ::
  "BuildInfo \<Rightarrow> real \<Rightarrow> strategy \<Rightarrow> (error + ClickerState) option" where
  "simulate_clicker build_info duration strat =
     (case purchase_loop (clone build_info) duration strat init_ClickerState of
        None \<Rightarrow> None
      | Some (Inl e) \<Rightarrow> Some (Inl e)
      | Some (Inr (cso, b)) \<Rightarrow>
          sweep_loop b duration strat (wait cso (duration - get_time cso)))"

section \<open>Sequences of state operations\<close>

text \<open>
  The two mutators of \<^verbatim>\<open>ClickerState\<close> as a datatype of calls, so that "any sequence
  of \<^verbatim>\<open>wait\<close> and \<^verbatim>\<open>buy_item\<close> calls on a fresh state" is a list.
\<close>

datatype operation = Wait real | Buy string real real

fun apply_operation :: "ClickerState \<Rightarrow> operation \<Rightarrow> ClickerState" where
  "apply_operation s (Wait time) = wait s time"
| "apply_operation s (Buy item_name cost additional_cps) =
     buy_item s item_name cost additional_cps"

definition run_operations :: "operation list \<Rightarrow> ClickerState" where
  "run_operations ops = foldl apply_operation init_ClickerState ops"




text \<open>
  The invariant of the history: it starts with the initial record, its times do not
  decrease, and none of them is later than the current time.
\<close>

definition history_ok :: "ClickerState \<Rightarrow> bool" where
  "history_ok s \<longleftrightarrow>
     (\<exists>rest. history s = (0, None, 0, 0) # rest) \<and> sorted (map fst (history s)) \<and>
     (\<forall>e\<in>set (history s). fst e \<le> current_time s)"

section \<open>Catalogs on which every run ends\<close>





section \<open>Example catalogs\<close>

definition quarter_catalog :: BuildInfo where
  "quarter_catalog =
     [(''Cursor'', \<lparr>item_cost = 1 / 4, item_cps = 1 / 10, item_growth = Multiplicative 2\<rparr>)]"

definition cursor_catalog :: BuildInfo where
  "cursor_catalog =
     [(''Cursor'', \<lparr>item_cost = 15, item_cps = 1 / 10,
                    item_growth = Multiplicative (23 / 20)\<rparr>)]"


section \<open>Properties of the game state\<close>

lemmas getters = get_cookies_def get_cps_def get_time_def get_history_def






text \<open>
  Claim C5. \<^verbatim>\<open>buy_item\<close> leaves the whole state as it is when the cost exceeds the
  balance; otherwise it takes the cost off the balance, adds the rate increase to the
  rate, appends the one event (time, item, cost, lifetime total) to the history, and
  leaves the time and the lifetime total alone.
\<close>

theorem buy_item_effect:
  "(get_cookies s < cost \<longrightarrow> buy_item s item_name cost additional_cps = s) \<and>
   (cost \<le> get_cookies s \<longrightarrow>
      get_cookies (buy_item s item_name cost additional_cps) = get_cookies s - cost \<and>
      get_cps (buy_item s item_name cost additional_cps) = get_cps s + additional_cps \<and>
      get_history (buy_item s item_name cost additional_cps) =
        get_history s @ [(get_time s, Some item_name, cost, total_cookies s)] \<and>
      get_time (buy_item s item_name cost additional_cps) = get_time s \<and>
      total_cookies (buy_item s item_name cost additional_cps) = total_cookies s)"
  by (simp add: buy_item_def getters)

theorem buy_item_effect_witness:
  "get_cookies init_ClickerState < 15 \<and>
   buy_item init_ClickerState ''Cursor'' 15 (1 / 10) = init_ClickerState \<and>
   0 \<le> get_cookies init_ClickerState \<and>
   get_history (buy_item init_ClickerState ''Cursor'' 0 (1 / 10)) =
     [(0, None, 0, 0), (0, Some ''Cursor'', 0, 0)] \<and>
   get_cps (buy_item init_ClickerState ''Cursor'' 0 (1 / 10)) = 11 / 10"
  using buy_item_effect [of init_ClickerState 15 "''Cursor''" "1 / 10"]
    buy_item_effect [of init_ClickerState 0 "''Cursor''" "1 / 10"]
  by (simp add: getters init_ClickerState_def)

text \<open>
  Claim C6. \<^verbatim>\<open>wait\<close> leaves the whole state as it is when the duration is at most 0;
  otherwise it adds the duration to the time and rate * duration to both the balance and
  the lifetime total, and leaves the rate and the history alone.
\<close>

theorem wait_effect:
  "(time \<le> 0 \<longrightarrow> wait s time = s) \<and>
   (0 < time \<longrightarrow>
      get_time (wait s time) = get_time s + time \<and>
      get_cookies (wait s time) = get_cookies s + get_cps s * time \<and>
      total_cookies (wait s time) = total_cookies s + get_cps s * time \<and>
      get_cps (wait s time) = get_cps s \<and>
      get_history (wait s time) = get_history s)"
  by (simp add: wait_def getters)

theorem wait_effect_witness:
  "(- 1 :: real) \<le> 0 \<and> wait init_ClickerState (- 1) = init_ClickerState \<and>
   (0 :: real) < 4 \<and> get_time (wait init_ClickerState 4) = 4 \<and>
   get_cookies (wait init_ClickerState 4) = 4 \<and> total_cookies (wait init_ClickerState 4) = 4"
  using wait_effect [of "- 1" init_ClickerState] wait_effect [of 4 init_ClickerState]
  by (simp add: getters init_ClickerState_def)

section \<open>Invariants over sequences of operations\<close>

lemma history_ok_init: "history_ok init_ClickerState"
  by (simp add: history_ok_def init_ClickerState_def)

lemma history_ok_wait: "history_ok s \<Longrightarrow> history_ok (wait s time)"
  by (fastforce simp: history_ok_def wait_def)

lemma history_ok_buy_item: "history_ok s \<Longrightarrow> history_ok (buy_item s item_name cost add)"
  by (auto simp: history_ok_def buy_item_def getters sorted_append)

lemma history_ok_run: "history_ok (run_operations ops)"
proof (induction ops rule: rev_induct)
  case Nil
  show ?case by (simp add: run_operations_def history_ok_init)
next
  case (snoc op ops)
  then show ?case
    by (cases op) (simp_all add: run_operations_def history_ok_wait history_ok_buy_item)
qed

text \<open>
  Claim C7. After any sequence of \<^verbatim>\<open>wait\<close> and \<^verbatim>\<open>buy_item\<close> calls on a fresh state,
  the times of the history do not decrease along the list, and its first element is the
  initial record (0, None, 0, 0).
\<close>

theorem history_sorted_from_sentinel:
  "sorted (map fst (get_history (run_operations ops))) \<and>
   get_history (run_operations ops) \<noteq> [] \<and>
   hd (get_history (run_operations ops)) = (0, None, 0, 0)"
  using history_ok_run [of ops] by (auto simp: history_ok_def get_history_def)

theorem history_sorted_from_sentinel_witness:
  "get_history (run_operations [Wait 3, Buy ''Cursor'' 2 (1 / 10)])
     = [(0, None, 0, 0), (3, Some ''Cursor'', 2, 3)] \<and>
   sorted (map fst (get_history (run_operations [Wait 3, Buy ''Cursor'' 2 (1 / 10)])))"
  using history_sorted_from_sentinel [of "[Wait 3, Buy ''Cursor'' 2 (1 / 10)]"]
  by (simp add: run_operations_def wait_def buy_item_def getters init_ClickerState_def)








section \<open>The reference strategies\<close>

text \<open>
  Claim C3. The claim bounds the affordable items by balance + rate * time left. The
  source bounds them by time left / rate: with balance 0, rate 2 and 10 time units
  left, an item of cost 15 is within the claim's bound of 20, and \<^verbatim>\<open>strategy_cheap\<close>
  answers \<^verbatim>\<open>None\<close>.
\<close>

theorem strategy_cheap_divides:
  "strategy_cheap 0 2 [(0, None, 0, 0)] 10 cursor_catalog = Inr None"
  by (simp add: strategy_cheap_def build_items_def get_cost_def cursor_catalog_def)

section \<open>Runs of the driver\<close>

text \<open>
  Claim C10. A fresh state has time 0, balance 0, lifetime total 0, rate 1 and the
  history [(0, None, 0, 0)]; a run for a horizon H of at least 0 with the strategy
  that always stops returns the fresh state with time, balance and lifetime total
  set to 1 * H.
\<close>

theorem strategy_none_run:
  assumes "0 \<le> H"
  shows "get_time init_ClickerState = 0 \<and> get_cookies init_ClickerState = 0 \<and>
         total_cookies init_ClickerState = 0 \<and> get_cps init_ClickerState = 1 \<and>
         get_history init_ClickerState = [(0, None, 0, 0)] \<and>
         simulate_clicker b H strategy_none =
           Some (Inr (init_ClickerState\<lparr>current_time := H, current_cookies := 1 * H,
                                        total_cookies := 1 * H\<rparr>))"
proof -
  have p: "purchase_loop (clone b) H strategy_none init_ClickerState
             = Some (Inr (init_ClickerState, clone b))"
    using assms
    by (subst purchase_loop.simps) (simp add: strategy_none_def getters init_ClickerState_def)
  have w: "wait init_ClickerState (H - get_time init_ClickerState)
             = init_ClickerState\<lparr>current_time := H, current_cookies := H, total_cookies := H\<rparr>"
    using assms by (cases "H = 0") (simp_all add: wait_def getters init_ClickerState_def)
  have s: "sweep_loop (clone b) H strategy_none
             (init_ClickerState\<lparr>current_time := H, current_cookies := H, total_cookies := H\<rparr>)
           = Some (Inr (init_ClickerState\<lparr>current_time := H, current_cookies := H,
                                           total_cookies := H\<rparr>))"
    by (subst sweep_loop.simps) (simp add: strategy_none_def)
  show ?thesis
    using p w s by (simp add: simulate_clicker_def getters init_ClickerState_def)
qed

theorem strategy_none_run_witness:
  "(0 :: real) \<le> 5 \<and>
   simulate_clicker cursor_catalog 5 strategy_none =
     Some (Inr \<lparr>total_cookies = 5, current_cookies = 5, current_time = 5, cps = 1,
                history = [(0, None, 0, 0)]\<rparr>)"
  using strategy_none_run [of 5 cursor_catalog] by (simp add: init_ClickerState_def)

lemma quarter_lookups:
  "get_cost quarter_catalog ''Cursor'' = Inr (1 / 4)"
  "get_item_cps quarter_catalog ''Cursor'' = Inr (1 / 10)"
  by (simp_all add: quarter_catalog_def get_cost_def get_item_cps_def)

lemma ceiling_quarter: "\<lceil>(1::real) / 4\<rceil> = 1"
  by (rule ceiling_unique) simp_all

lemma quarter_phase1:
  "purchase_loop quarter_catalog (1 / 2) strategy_cursor_broken init_ClickerState
     = Some (Inr (init_ClickerState, quarter_catalog))"
  by (subst purchase_loop.simps)
     (simp add: quarter_lookups strategy_cursor_broken_def time_until_def getters
        init_ClickerState_def ceiling_quarter)

lemma quarter_sweep3:
  "sweep_loop quarter_catalog (1 / 2) strategy_cursor_broken
     \<lparr>total_cookies = 1 / 2, current_cookies = 0, current_time = 1 / 2, cps = 6 / 5,
      history = h\<rparr>
   = Some (Inr \<lparr>total_cookies = 1 / 2, current_cookies = 0, current_time = 1 / 2,
                cps = 6 / 5, history = h\<rparr>)"
  by (subst sweep_loop.simps)
     (simp add: quarter_lookups strategy_cursor_broken_def getters)

lemma quarter_sweep2:
  "sweep_loop quarter_catalog (1 / 2) strategy_cursor_broken
     \<lparr>total_cookies = 1 / 2, current_cookies = 1 / 4, current_time = 1 / 2, cps = 11 / 10,
      history = h\<rparr>
   = Some (Inr \<lparr>total_cookies = 1 / 2, current_cookies = 0, current_time = 1 / 2,
                cps = 6 / 5, history = h @ [(1 / 2, Some ''Cursor'', 1 / 4, 1 / 2)]\<rparr>)"
  by (subst sweep_loop.simps)
     (simp add: quarter_lookups strategy_cursor_broken_def getters buy_item_def quarter_sweep3)

lemma quarter_sweep1:
  "sweep_loop quarter_catalog (1 / 2) strategy_cursor_broken
     \<lparr>total_cookies = 1 / 2, current_cookies = 1 / 2, current_time = 1 / 2, cps = 1,
      history = h\<rparr>
   = Some (Inr \<lparr>total_cookies = 1 / 2, current_cookies = 0, current_time = 1 / 2,
                cps = 6 / 5,
                history = (h @ [(1 / 2, Some ''Cursor'', 1 / 4, 1 / 2)])
                             @ [(1 / 2, Some ''Cursor'', 1 / 4, 1 / 2)]\<rparr>)"
  by (subst sweep_loop.simps)
     (simp add: quarter_lookups strategy_cursor_broken_def getters buy_item_def quarter_sweep2)

text \<open>
  Claim C9. The purchases of the final loop do not touch the catalog. With one item of
  cost 1/4 that doubles at each purchase, a horizon of 1/2 and the strategy that always
  names the item, the first loop buys nothing (the wait of 1 passes the horizon) and
  the final loop buys the item twice, both times at 1/4: the second purchase is not at
  the grown cost 1/2, which the balance of 1/4 would not cover.
\<close>

theorem sweep_keeps_cost:
  "simulate_clicker quarter_catalog (1 / 2) strategy_cursor_broken
   = Some (Inr \<lparr>total_cookies = 1 / 2, current_cookies = 0, current_time = 1 / 2,
                cps = 6 / 5,
                history = [(0, None, 0, 0), (1 / 2, Some ''Cursor'', 1 / 4, 1 / 2),
                           (1 / 2, Some ''Cursor'', 1 / 4, 1 / 2)]\<rparr>)"
proof -
  have w: "wait init_ClickerState (1 / 2 - get_time init_ClickerState)
             = \<lparr>total_cookies = 1 / 2, current_cookies = 1 / 2, current_time = 1 / 2, cps = 1,
                history = [(0, None, 0, 0)]\<rparr>"
    by (simp add: wait_def getters init_ClickerState_def)
  show ?thesis
    by (simp add: simulate_clicker_def clone_def quarter_phase1 w quarter_sweep1)
qed

section \<open>Termination of the driver\<close>
























end
